theory Spec2Isabelle
  imports Complex_Main "HOL-Library.Word"
begin

section \<open>Requantization of a TFLite flatbuffer from int8 to int16\<close>

text \<open>
  A shallow embedding of \<^verbatim>\<open>tensorflow/lite/micro/tools/requantize_flatbuffer_utils.py\<close>.

  Conventions of the embedding.
  \<^item> A numpy array is the list of its elements. A floating-point number is a \<^typ>\<open>real\<close>:
    multiplication, division, addition and subtraction of finite values are taken as
    exact, where a double rounds, and the values \<open>inf\<close> and \<open>nan\<close> do not exist. The one
    place where the source produces them from finite input without overflow is the
    division by a zero scale in \<open>quantize_data\<close>; the model stops there with the
    outcome \<open>NonFinite\<close>, which is not a Python exception. The conversion of a Python
    integer to a double, which numpy applies to the bounds of \<open>clip_range\<close>, is not
    idealised: it rounds as the machine does.
  \<^item> The tensors and buffers of the model are Python objects that the source mutates
    in place. The state is the record \<open>model\<close>; a reference to a tensor is its position
    in the list \<open>tensors\<close>, so two references alias exactly when they are equal.
  \<^item> A function that mutates the state returns \<open>Inr\<close> of the final state, or
    \<open>Inl (e, s)\<close> when the exception \<open>e\<close> is raised with the state \<open>s\<close> reached so far.
  \<^item> \<open>logging.info\<close> appends its message to the field \<open>logged\<close>.
  \<^item> A buffer is its list of bytes; an array is laid out in it least significant byte
    first, the order of the machines the tool runs on.
\<close>

subsection \<open>Errors and Python indexing\<close>

datatype error = RuntimeError | IndexError | ValueError | KeyError | NonFinite

text \<open>\<open>xs[i]\<close> on a Python list: a negative index counts from the end.\<close>

definition py_index :: "nat \<Rightarrow> int \<Rightarrow> error + nat" where
  "py_index n i =
     (if 0 \<le> i \<and> i < int n then Inr (nat i)
      else if - int n \<le> i \<and> i < 0 then Inr (nat (int n + i))
      else Inl IndexError)"

definition getitem :: "'a list \<Rightarrow> int \<Rightarrow> error + 'a" where
  "getitem xs i = (case py_index (length xs) i of Inl e \<Rightarrow> Inl e | Inr k \<Rightarrow> Inr (xs ! k))"

subsection \<open>The tensor type table\<close>

text \<open>
  Modelled from the spec: the enumeration \<open>TensorType\<close> of \<open>schema_py_generated\<close>, which
  the source imports and which is not among the source files. The spec calls it a closed
  enumeration of type codes; the constructors are the members the source's table names.
\<close>

datatype TensorType =
  FLOAT32 | FLOAT16 | INT32 | UINT8 | INT64 | STRING | BOOL | INT16 | COMPLEX64 | INT8
  | FLOAT64 | COMPLEX128 | UINT64 | RESOURCE | VARIANT | UINT32 | UINT16 | INT4

text \<open>The values of the table: numpy's data types and three strings.\<close>

datatype np_dtype =
  np_float32 | np_float16 | np_int32 | np_uint8 | np_int64 | np_string | np_bool | np_int16
  | np_complex64 | np_int8 | np_float64 | np_complex128 | np_uint64 | str_RESOURCE
  | str_VARIANT | np_uint32 | np_uint16 | str_INT4

definition TENSOR_CODE_TYPE :: "(TensorType \<times> np_dtype) list" where
  "TENSOR_CODE_TYPE =
     [(FLOAT32, np_float32), (FLOAT16, np_float16), (INT32, np_int32), (UINT8, np_uint8),
      (INT64, np_int64), (STRING, np_string), (BOOL, np_bool), (INT16, np_int16),
      (COMPLEX64, np_complex64), (INT8, np_int8), (FLOAT64, np_float64),
      (COMPLEX128, np_complex128), (UINT64, np_uint64), (RESOURCE, str_RESOURCE),
      (VARIANT, str_VARIANT), (UINT32, np_uint32), (UINT16, np_uint16), (INT4, str_INT4)]"

text \<open>
  \<open>dict(reversed(item) for item in TENSOR_CODE_TYPE.items())\<close>: a later item overrides an
  earlier one with the same key, so the lookup reads the swapped list from its end.
\<close>

definition TENSOR_TYPE_CODE :: "np_dtype \<rightharpoonup> TensorType" where
  "TENSOR_TYPE_CODE = map_of (rev (map prod.swap TENSOR_CODE_TYPE))"

definition lookup_code :: "np_dtype \<Rightarrow> error + TensorType" where
  "lookup_code d = (case TENSOR_TYPE_CODE d of None \<Rightarrow> Inl KeyError | Some c \<Rightarrow> Inr c)"

subsection \<open>The data model\<close>

record quantization_parameters =
  scale :: "real list"
  zeroPoint :: "int list"
  quantizedDimension :: int

record tensor =
  name :: string
  type :: TensorType
  buffer :: int
  quantization :: quantization_parameters

record Buffer =
  data :: "8 word list"

record operator =
  inputs :: "int list"
  outputs :: "int list"

record model =
  tensors :: "tensor list"
  buffers :: "Buffer list"
  logged :: "string list"

subsection \<open>numpy\<close>

text \<open>\<open>np.round\<close> rounds a value halfway between two integers to the even one.\<close>

definition np_round :: "real \<Rightarrow> real" where
  "np_round x =
     (let f = \<lfloor>x\<rfloor>; d = x - of_int f
      in if d < 1 / 2 then of_int f
         else if 1 / 2 < d then of_int (f + 1)
         else if even f then of_int f else of_int (f + 1))"

text \<open>
  A Python integer that meets a float64 array is converted to a double: the nearest one,
  and the one with the even significand when two are equally near. An integer of at most
  53 bits is a double already; a longer one keeps its 53 leading bits, rounded.
  \<open>bit_length\<close> is Python's \<open>int.bit_length\<close>.
\<close>

fun bit_length :: "nat \<Rightarrow> nat" where
  "bit_length n = (if n = 0 then 0 else Suc (bit_length (n div 2)))"

declare bit_length.simps [simp del]

definition float64_of_int :: "int \<Rightarrow> real" where
  "float64_of_int n =
     (let l = bit_length (nat \<bar>n\<bar>)
      in if l \<le> 53 then of_int n
         else np_round (of_int n / 2 ^ (l - 53)) * 2 ^ (l - 53))"

text \<open>\<open>vals.max()\<close> and \<open>vals.min()\<close> raise ValueError on an array with no element.\<close>

fun np_max :: "real list \<Rightarrow> error + real" where
  "np_max [] = Inl ValueError"
| "np_max (x # xs) = Inr (fold max xs x)"

fun np_min :: "real list \<Rightarrow> error + real" where
  "np_min [] = Inl ValueError"
| "np_min (x # xs) = Inr (fold min xs x)"

text \<open>\<open>np.clip(a, lo, hi)\<close> is \<open>np.minimum(hi, np.maximum(a, lo))\<close>, element by element.\<close>

definition np_clip :: "real list \<Rightarrow> real \<Rightarrow> real \<Rightarrow> real list" where
  "np_clip vals lo hi = map (\<lambda>v. min hi (max v lo)) vals"

text \<open>
  \<open>np.frombuffer(data, dtype=np.int32)\<close>: every four bytes are one 32-bit signed integer,
  least significant byte first; a length that is not a multiple of four raises ValueError.
\<close>

definition le_int32 :: "8 word \<Rightarrow> 8 word \<Rightarrow> 8 word \<Rightarrow> 8 word \<Rightarrow> 32 word" where
  "le_int32 b0 b1 b2 b3 =
     word_of_nat (unat b0 + 256 * unat b1 + 65536 * unat b2 + 16777216 * unat b3)"

fun frombuffer_int32 :: "8 word list \<Rightarrow> error + 32 word list" where
  "frombuffer_int32 [] = Inr []"
| "frombuffer_int32 (b0 # b1 # b2 # b3 # bs) =
     (case frombuffer_int32 bs of
        Inl e \<Rightarrow> Inl e
      | Inr ws \<Rightarrow> Inr (le_int32 b0 b1 b2 b3 # ws))"
| "frombuffer_int32 bs = Inl ValueError"

text \<open>
  \<open>.astype(np.int64)\<close> of a floating-point array drops the fraction of each element
  (towards zero). A value outside the 64-bit signed range has no conversion in C; the
  x86-64 instruction that numpy's cast compiles to gives \<open>-2^63\<close> for every such value,
  and that is what the model gives.
\<close>

definition astype_int64 :: "real list \<Rightarrow> 64 word list" where
  "astype_int64 vals =
     map (\<lambda>v. let t = (if 0 \<le> v then \<lfloor>v\<rfloor> else \<lceil>v\<rceil>)
              in if - (2 ^ 63) \<le> t \<and> t < 2 ^ 63 then word_of_int t else word_of_int (- (2 ^ 63)))
       vals"

text \<open>\<open>.tobytes()\<close>: the eight bytes of each element, least significant byte first.\<close>

definition bytes_int64 :: "64 word \<Rightarrow> 8 word list" where
  "bytes_int64 w = map (\<lambda>k. ucast (drop_bit (8 * k) w)) [0..<8]"

definition tobytes_int64 :: "64 word list \<Rightarrow> 8 word list" where
  "tobytes_int64 ws = concat (map bytes_int64 ws)"

text \<open>The same for 32-bit elements: what a buffer holding an int32 array looks like.\<close>

definition bytes_int32 :: "32 word \<Rightarrow> 8 word list" where
  "bytes_int32 w = map (\<lambda>k. ucast (drop_bit (8 * k) w)) [0..<4]"

definition tobytes_int32 :: "32 word list \<Rightarrow> 8 word list" where
  "tobytes_int32 ws = concat (map bytes_int32 ws)"

subsection \<open>Saturating quantization arithmetic\<close>

definition overflow_warning :: string where
  "overflow_warning = ''WARNING: integer overflow!''"

text \<open>
  The bounds \<open>min_val = -2**(bit_width - 1)\<close> and \<open>max_val = 2**(bit_width - 1) - 1\<close> of
  \<open>clip_range\<close>, as numpy uses them. \<open>bit_width\<close> is a number of bits. When it is 0,
  \<open>2**(-1)\<close> is the float \<open>0.5\<close>. Otherwise the bounds are Python integers, and both the
  comparisons with \<open>vals.max()\<close> and \<open>vals.min()\<close> and \<open>np.clip\<close> convert them to
  doubles: \<open>2**63 - 1\<close> becomes \<open>2**63\<close>. The model is meant for the widths up to 64, whose
  bounds are 64-bit integers; the tool uses 64, and 8 is the default.
\<close>

definition min_val :: "nat \<Rightarrow> real" where
  "min_val bit_width =
     (if bit_width = 0 then - (1 / 2) else float64_of_int (- (2 ^ (bit_width - 1))))"

definition max_val :: "nat \<Rightarrow> real" where
  "max_val bit_width =
     (if bit_width = 0 then 1 / 2 - 1 else float64_of_int (2 ^ (bit_width - 1) - 1))"

text \<open>
  \<open>clip_range(vals, bit_width)\<close>. The result is the pair of the messages logged and the
  clipped array. Python's \<open>or\<close> does not evaluate \<open>vals.min()\<close> when the first test
  holds.
\<close>

definition clip_range :: "real list \<Rightarrow> nat \<Rightarrow> error + (string list \<times> real list)" where
  "clip_range vals bit_width =
     (case np_max vals of
        Inl e \<Rightarrow> Inl e
      | Inr mx \<Rightarrow>
          if max_val bit_width < mx
          then Inr ([overflow_warning], np_clip vals (min_val bit_width) (max_val bit_width))
          else (case np_min vals of
                  Inl e \<Rightarrow> Inl e
                | Inr mn \<Rightarrow>
                    if mn < min_val bit_width
                    then Inr ([overflow_warning],
                              np_clip vals (min_val bit_width) (max_val bit_width))
                    else Inr ([], np_clip vals (min_val bit_width) (max_val bit_width))))"

text \<open>
  \<open>quantize_data(data, scale, zero_point, bit_width)\<close>; the parameters \<open>data\<close> and
  \<open>scale\<close> are primed, the plain names being fields of the records above.
\<close>

definition quantize_data ::
  "real list \<Rightarrow> real \<Rightarrow> int \<Rightarrow> nat \<Rightarrow> error + (string list \<times> real list)" where
  "quantize_data data' scale' zero_point bit_width =
     (if scale' = 0 then Inl NonFinite
      else clip_range (map (\<lambda>x. np_round (x / scale') + of_int zero_point) data') bit_width)"

text \<open>\<open>dequantize_data(quantized_data, scale, zero_point)\<close>.\<close>

definition dequantize_data :: "real list \<Rightarrow> real \<Rightarrow> int \<Rightarrow> real list" where
  "dequantize_data quantized_data scale' zero_point =
     map (\<lambda>q. scale' * (q - of_int zero_point)) quantized_data"

text \<open>
  \<open>dequantize_data\<close> on an int32 array, as \<open>set_bias_type_int64\<close> calls it. numpy
  subtracts the zero point in integers before it multiplies: in 32 bits, wrapping around,
  when the zero point fits in 32 bits, and in 64 bits otherwise (the zero points of the
  schema are 64-bit integers).
\<close>

definition int32_minus :: "32 word \<Rightarrow> int \<Rightarrow> int" where
  "int32_minus w zero_point =
     (if - (2 ^ 31) \<le> zero_point \<and> zero_point < 2 ^ 31
      then sint (w - word_of_int zero_point)
      else sint (word_of_int (sint w - zero_point) :: 64 word))"

definition dequantize_data_int32 :: "32 word list \<Rightarrow> real \<Rightarrow> int \<Rightarrow> real list" where
  "dequantize_data_int32 quantized_data scale' zero_point =
     map (\<lambda>q. scale' * real_of_int (int32_minus q zero_point)) quantized_data"

subsection \<open>Activation retyping\<close>

text \<open>
  \<open>change_quantization_settings_8to16(tensor)\<close>, for the tensor at position \<open>r\<close>. Every
  exception is raised before the first assignment.
\<close>

definition change_quantization_settings_8to16 :: "model \<Rightarrow> nat \<Rightarrow> (error \<times> model) + model" where
  "change_quantization_settings_8to16 m r =
     (let q = quantization (tensors m ! r)
      in if quantizedDimension q \<noteq> 0 then Inl (RuntimeError, m)
         else (case getitem (scale q) 0 of
                 Inl e \<Rightarrow> Inl (e, m)
               | Inr s \<Rightarrow>
                  (case getitem (zeroPoint q) 0 of
                     Inl e \<Rightarrow> Inl (e, m)
                   | Inr zero_point \<Rightarrow>
                       let MIN_INT8 = - 128; MAX_INT8 = 128;
                           MIN_INT16 = - 32767;
                           rmax = s * (MAX_INT8 - of_int zero_point);
                           rmin = s * (MIN_INT8 - of_int zero_point);
                           scale_16 = max \<bar>rmax\<bar> \<bar>rmin\<bar> / \<bar>MIN_INT16\<bar>
                       in Inr (m\<lparr>tensors := (tensors m)
                                 [r := (tensors m ! r)
                                    \<lparr>quantization := q\<lparr>scale := [scale_16], zeroPoint := [0]\<rparr>\<rparr>]\<rparr>))))"

definition set_type :: "model \<Rightarrow> nat \<Rightarrow> TensorType \<Rightarrow> model" where
  "set_type m r c = m\<lparr>tensors := (tensors m)[r := (tensors m ! r)\<lparr>type := c\<rparr>]\<rparr>"

definition logging_info :: "model \<Rightarrow> string \<Rightarrow> model" where
  "logging_info m msg = m\<lparr>logged := logged m @ [msg]\<rparr>"

text \<open>\<open>change_activation_tensor_8to16(tensor)\<close>.\<close>

definition change_activation_tensor_8to16 :: "model \<Rightarrow> nat \<Rightarrow> (error \<times> model) + model" where
  "change_activation_tensor_8to16 m r =
     (case lookup_code np_int8 of
        Inl e \<Rightarrow> Inl (e, m)
      | Inr c8 \<Rightarrow>
          if type (tensors m ! r) = c8
          then (case change_quantization_settings_8to16 m r of
                  Inl em \<Rightarrow> Inl em
                | Inr m1 \<Rightarrow>
                   (case lookup_code np_int16 of
                      Inl e \<Rightarrow> Inl (e, m1)
                    | Inr c16 \<Rightarrow>
                        Inr (logging_info (set_type m1 r c16)
                               (''Set '' @ name (tensors m1 ! r) @ '' from int8 to int16 ''))))
          else Inr m)"

subsection \<open>Bias retyping\<close>

text \<open>
  \<open>set_bias_type_int64(buffers, input, weight, bias)\<close>; \<open>buffers\<close> is the field of the
  state, the three tensors are references. Every exception that can be raised is raised
  before the buffer is overwritten, the KeyError of the table apart.
\<close>

definition set_bias_type_int64 :: "model \<Rightarrow> nat \<Rightarrow> nat \<Rightarrow> nat \<Rightarrow> (error \<times> model) + model" where
  "set_bias_type_int64 m input weight bias =
     (case py_index (length (buffers m)) (buffer (tensors m ! bias)) of
        Inl e \<Rightarrow> Inl (e, m)
      | Inr k \<Rightarrow>
     (case getitem (scale (quantization (tensors m ! bias))) 0 of
        Inl e \<Rightarrow> Inl (e, m)
      | Inr bias_scale \<Rightarrow>
     (case getitem (zeroPoint (quantization (tensors m ! bias))) 0 of
        Inl e \<Rightarrow> Inl (e, m)
      | Inr bias_zero_pt \<Rightarrow>
     (case frombuffer_int32 (data (buffers m ! k)) of
        Inl e \<Rightarrow> Inl (e, m)
      | Inr ws \<Rightarrow>
     (let dequantized_data = dequantize_data_int32 ws bias_scale bias_zero_pt
      in
     (case getitem (scale (quantization (tensors m ! input))) 0 of
        Inl e \<Rightarrow> Inl (e, m)
      | Inr input_scale \<Rightarrow>
     (case getitem (scale (quantization (tensors m ! weight))) 0 of
        Inl e \<Rightarrow> Inl (e, m)
      | Inr weight_scale \<Rightarrow>
     (let bias_scale_int64 = input_scale * weight_scale;
          bias_zero_pt_int64 = 0
      in
     (case quantize_data dequantized_data bias_scale_int64 bias_zero_pt_int64 64 of
        Inl e \<Rightarrow> Inl (e, m)
      | Inr (msgs, vals) \<Rightarrow>
     (let int64_data = astype_int64 vals;
          m1 = m\<lparr>logged := logged m @ msgs,
                 buffers := (buffers m)[k := (buffers m ! k)\<lparr>data := tobytes_int64 int64_data\<rparr>]\<rparr>
      in
     (case lookup_code np_int64 of
        Inl e \<Rightarrow> Inl (e, m1)
      | Inr c64 \<Rightarrow>
     (let m2 = set_type m1 bias c64;
          m3 = m2\<lparr>tensors := (tensors m2)
                  [bias := (tensors m2 ! bias)
                     \<lparr>quantization := (quantization (tensors m2 ! bias))
                        \<lparr>scale := [bias_scale_int64], zeroPoint := [bias_zero_pt_int64]\<rparr>\<rparr>]\<rparr>
      in Inr (logging_info m3
                (''Set '' @ name (tensors m3 ! bias) @ '' from int32 to int64''))))))))))))))"

subsection \<open>Operator requantization\<close>

text \<open>
  \<open>tensors[i]\<close> for an index read from the operator: the reference to the tensor, or
  IndexError.
\<close>

definition tensor_ref :: "model \<Rightarrow> int \<Rightarrow> error + nat" where
  "tensor_ref m i = py_index (length (tensors m)) i"

text \<open>\<open>requantize_fully_connected(tensors, buffers, op)\<close>.\<close>

definition requantize_fully_connected :: "model \<Rightarrow> operator \<Rightarrow> (error \<times> model) + model" where
  "requantize_fully_connected m op =
     (case getitem (inputs op) 0 of Inl e \<Rightarrow> Inl (e, m) | Inr i0 \<Rightarrow>
     (case tensor_ref m i0 of Inl e \<Rightarrow> Inl (e, m) | Inr input_tensor \<Rightarrow>
     (case getitem (inputs op) 1 of Inl e \<Rightarrow> Inl (e, m) | Inr i1 \<Rightarrow>
     (case tensor_ref m i1 of Inl e \<Rightarrow> Inl (e, m) | Inr weight_tensor \<Rightarrow>
     (case getitem (outputs op) 0 of Inl e \<Rightarrow> Inl (e, m) | Inr o0 \<Rightarrow>
     (case tensor_ref m o0 of Inl e \<Rightarrow> Inl (e, m) | Inr output_tensor \<Rightarrow>
     (case change_activation_tensor_8to16 m input_tensor of Inl em \<Rightarrow> Inl em | Inr m1 \<Rightarrow>
     (case change_activation_tensor_8to16 m1 output_tensor of Inl em \<Rightarrow> Inl em | Inr m2 \<Rightarrow>
     (case getitem (inputs op) 2 of Inl e \<Rightarrow> Inl (e, m2) | Inr i2 \<Rightarrow>
        if i2 \<noteq> - 1
        then (case tensor_ref m2 i2 of
                Inl e \<Rightarrow> Inl (e, m2)
              | Inr bias_tensor \<Rightarrow>
                  set_bias_type_int64 m2 input_tensor weight_tensor bias_tensor)
        else Inr m2)))))))))"

text \<open>\<open>requantize_softmax(tensors, buffers, op)\<close>.\<close>

definition requantize_softmax :: "model \<Rightarrow> operator \<Rightarrow> (error \<times> model) + model" where
  "requantize_softmax m op =
     (case getitem (inputs op) 0 of Inl e \<Rightarrow> Inl (e, m) | Inr i0 \<Rightarrow>
     (case tensor_ref m i0 of Inl e \<Rightarrow> Inl (e, m) | Inr input_tensor \<Rightarrow>
     (case getitem (outputs op) 0 of Inl e \<Rightarrow> Inl (e, m) | Inr o0 \<Rightarrow>
     (case tensor_ref m o0 of Inl e \<Rightarrow> Inl (e, m) | Inr output_tensor \<Rightarrow>
     (case change_activation_tensor_8to16 m input_tensor of Inl em \<Rightarrow> Inl em | Inr m1 \<Rightarrow>
     (case lookup_code np_int8 of Inl e \<Rightarrow> Inl (e, m1) | Inr c8 \<Rightarrow>
        if type (tensors m1 ! output_tensor) = c8
        then (let m2 = m1\<lparr>tensors := (tensors m1)
                        [output_tensor := (tensors m1 ! output_tensor)
                           \<lparr>quantization := (quantization (tensors m1 ! output_tensor))
                              \<lparr>scale := [1 / 32768], zeroPoint := [0]\<rparr>\<rparr>]\<rparr>
              in (case lookup_code np_int16 of
                    Inl e \<Rightarrow> Inl (e, m2)
                  | Inr c16 \<Rightarrow>
                      Inr (logging_info (set_type m2 output_tensor c16)
                             (''Set '' @ name (tensors m2 ! output_tensor)
                                @ '' from int8 to int16 ''))))
        else Inr m1))))))"

section \<open>Notions used in the statements\<close>

text \<open>The state in which a call ends, whether it returned or raised.\<close>

definition final_state :: "(error \<times> model) + model \<Rightarrow> model" where
  "final_state out = (case out of Inl (e, s) \<Rightarrow> s | Inr s \<Rightarrow> s)"

text \<open>
  The state after the tensor at \<open>r\<close> has been retyped to int16 with the scale \<open>sc\<close>, and
  after the output of a softmax has been given its fixed scale.
\<close>

definition retyped :: "model \<Rightarrow> nat \<Rightarrow> real \<Rightarrow> model" where
  "retyped m r sc =
     m\<lparr>tensors := (tensors m)
          [r := (tensors m ! r)
             \<lparr>quantization := (quantization (tensors m ! r))\<lparr>scale := [sc], zeroPoint := [0]\<rparr>,
              type := INT16\<rparr>],
       logged := logged m @ [''Set '' @ name (tensors m ! r) @ '' from int8 to int16 '']\<rparr>"

definition softmax_output :: "model \<Rightarrow> nat \<Rightarrow> model" where
  "softmax_output m r =
     m\<lparr>tensors := (tensors m)
          [r := (tensors m ! r)
             \<lparr>quantization := (quantization (tensors m ! r))\<lparr>scale := [1 / 32768], zeroPoint := [0]\<rparr>,
              type := INT16\<rparr>],
       logged := logged m @ [''Set '' @ name (tensors m ! r) @ '' from int8 to int16 '']\<rparr>"

text \<open>The first two calls of \<open>requantize_fully_connected\<close>, one after the other.\<close>

definition retype_activations :: "model \<Rightarrow> nat \<Rightarrow> nat \<Rightarrow> (error \<times> model) + model" where
  "retype_activations m inp outp =
     (case change_activation_tensor_8to16 m inp of
        Inl em \<Rightarrow> Inl em
      | Inr m1 \<Rightarrow> change_activation_tensor_8to16 m1 outp)"

subsection \<open>Example models\<close>

text \<open>An int8 activation with scale 0.5 and zero point 10, as in the spec's example.\<close>

definition activation_example :: model where
  "activation_example =
     \<lparr>tensors = [\<lparr>name = ''act'', type = INT8, buffer = 0,
                   quantization = \<lparr>scale = [0.5], zeroPoint = [10], quantizedDimension = 0\<rparr>\<rparr>],
      buffers = [], logged = []\<rparr>"

text \<open>An int16 tensor quantized per channel.\<close>

definition per_channel_int16_example :: model where
  "per_channel_int16_example =
     \<lparr>tensors = [\<lparr>name = ''act'', type = INT16, buffer = 0,
                   quantization = \<lparr>scale = [0.5, 0.25], zeroPoint = [0, 0], quantizedDimension = 1\<rparr>\<rparr>],
      buffers = [], logged = []\<rparr>"

text \<open>
  The spec's bias example: input scale 0.1, weight scale 0.2, an int32 bias \<open>[5, -5]\<close> at
  scale 0.05 and zero point 0. The parameter is the bias tensor's \<open>quantizedDimension\<close>.
\<close>

definition bias_example :: "int \<Rightarrow> model" where
  "bias_example qd =
     \<lparr>tensors =
        [\<lparr>name = ''input'', type = INT16, buffer = 0,
          quantization = \<lparr>scale = [0.1], zeroPoint = [0], quantizedDimension = 0\<rparr>\<rparr>,
         \<lparr>name = ''weight'', type = INT8, buffer = 1,
          quantization = \<lparr>scale = [0.2], zeroPoint = [0], quantizedDimension = 0\<rparr>\<rparr>,
         \<lparr>name = ''bias'', type = INT32, buffer = 2,
          quantization = \<lparr>scale = [0.05], zeroPoint = [0], quantizedDimension = qd\<rparr>\<rparr>],
      buffers = [\<lparr>data = []\<rparr>, \<lparr>data = [1, 2]\<rparr>, \<lparr>data = tobytes_int32 [5, - 5]\<rparr>],
      logged = []\<rparr>"

text \<open>
  A bias whose value does not fit in 64 bits at the new scale: the int32 \<open>[1]\<close> at scale
  1, with input and weight scales \<open>2^-32\<close>.
\<close>

definition bias_overflow_example :: model where
  "bias_overflow_example =
     \<lparr>tensors =
        [\<lparr>name = ''input'', type = INT16, buffer = 0,
          quantization = \<lparr>scale = [1 / 2 ^ 32], zeroPoint = [0], quantizedDimension = 0\<rparr>\<rparr>,
         \<lparr>name = ''weight'', type = INT8, buffer = 1,
          quantization = \<lparr>scale = [1 / 2 ^ 32], zeroPoint = [0], quantizedDimension = 0\<rparr>\<rparr>,
         \<lparr>name = ''bias'', type = INT32, buffer = 2,
          quantization = \<lparr>scale = [1], zeroPoint = [0], quantizedDimension = 0\<rparr>\<rparr>],
      buffers = [\<lparr>data = []\<rparr>, \<lparr>data = [1, 2]\<rparr>, \<lparr>data = tobytes_int32 [1]\<rparr>],
      logged = []\<rparr>"

text \<open>A softmax from tensor 0 to tensor 1; the parameter is the input's \<open>quantizedDimension\<close>.\<close>

definition softmax_example :: "int \<Rightarrow> model" where
  "softmax_example qd =
     \<lparr>tensors =
        [\<lparr>name = ''logits'', type = INT8, buffer = 0,
          quantization = \<lparr>scale = [0.5], zeroPoint = [10], quantizedDimension = qd\<rparr>\<rparr>,
         \<lparr>name = ''probabilities'', type = INT8, buffer = 1,
          quantization = \<lparr>scale = [1 / 256], zeroPoint = [- 128], quantizedDimension = 0\<rparr>\<rparr>],
      buffers = [\<lparr>data = []\<rparr>, \<lparr>data = []\<rparr>],
      logged = []\<rparr>"

definition softmax_op :: operator where
  "softmax_op = \<lparr>inputs = [0], outputs = [1]\<rparr>"

text \<open>
  A dense operator with no bias: input 0, weight 1, output 2; the parameter is the
  input's \<open>quantizedDimension\<close>.
\<close>

definition dense_example :: "int \<Rightarrow> model" where
  "dense_example qd =
     \<lparr>tensors =
        [\<lparr>name = ''input'', type = INT8, buffer = 0,
          quantization = \<lparr>scale = [0.5], zeroPoint = [10], quantizedDimension = qd\<rparr>\<rparr>,
         \<lparr>name = ''weight'', type = INT8, buffer = 1,
          quantization = \<lparr>scale = [0.2], zeroPoint = [0], quantizedDimension = 0\<rparr>\<rparr>,
         \<lparr>name = ''output'', type = INT8, buffer = 2,
          quantization = \<lparr>scale = [0.25], zeroPoint = [- 3], quantizedDimension = 0\<rparr>\<rparr>],
      buffers = [\<lparr>data = []\<rparr>, \<lparr>data = [1, 2]\<rparr>, \<lparr>data = []\<rparr>],
      logged = []\<rparr>"

definition dense_op :: operator where
  "dense_op = \<lparr>inputs = [0, 1, - 1], outputs = [2]\<rparr>"

section \<open>Properties\<close>

subsection \<open>Table lookups and indexing\<close>

lemma lookup_code_int8: "lookup_code np_int8 = Inr INT8"
  by (simp add: lookup_code_def TENSOR_TYPE_CODE_def TENSOR_CODE_TYPE_def)

lemma lookup_code_int16: "lookup_code np_int16 = Inr INT16"
  by (simp add: lookup_code_def TENSOR_TYPE_CODE_def TENSOR_CODE_TYPE_def)

lemma lookup_code_int64: "lookup_code np_int64 = Inr INT64"
  by (simp add: lookup_code_def TENSOR_TYPE_CODE_def TENSOR_CODE_TYPE_def)

lemma getitem_Cons_0: "getitem (x # xs) 0 = Inr x"
  by (simp add: getitem_def py_index_def)

lemma py_index_less: "py_index n i = Inr k \<Longrightarrow> k < n"
  by (auto simp: py_index_def split: if_splits)

lemma tensor_ref_less: "tensor_ref m i = Inr r \<Longrightarrow> r < length (tensors m)"
  by (simp add: tensor_ref_def py_index_less)

subsection \<open>Integers as doubles\<close>

lemma bit_length_eq:
  "2 ^ k \<le> n \<Longrightarrow> n < 2 ^ Suc k \<Longrightarrow> bit_length n = Suc k"
proof (induction k arbitrary: n)
  case 0
  then have "n = 1" by simp
  then show ?case by (simp add: bit_length.simps)
next
  case (Suc k)
  have "2 ^ k \<le> n div 2" using Suc.prems(1) by simp
  moreover have "n div 2 < 2 ^ Suc k" using Suc.prems(2) by simp
  ultimately have "bit_length (n div 2) = Suc k" by (rule Suc.IH)
  moreover have "n \<noteq> 0"
  proof
    assume "n = 0"
    then have "(2::nat) ^ Suc k \<le> 0" using Suc.prems(1) by simp
    then show False by simp
  qed
  ultimately show ?case by (subst bit_length.simps) simp
qed

lemma bit_length_less:
  "n < 2 ^ k \<Longrightarrow> bit_length n \<le> k"
proof (induction k arbitrary: n)
  case 0
  then show ?case by (simp add: bit_length.simps)
next
  case (Suc k)
  show ?case
  proof (cases "n = 0")
    case True
    then show ?thesis by (simp add: bit_length.simps)
  next
    case False
    have "n div 2 < 2 ^ k" using Suc.prems by simp
    then have "bit_length (n div 2) \<le> k" by (rule Suc.IH)
    then show ?thesis using False by (subst bit_length.simps) simp
  qed
qed

text \<open>An integer below \<open>2^53\<close> in magnitude is a double.\<close>

lemma float64_of_int_small: "\<bar>n\<bar> < 2 ^ 53 \<Longrightarrow> float64_of_int n = of_int n"
proof -
  assume "\<bar>n\<bar> < 2 ^ 53"
  then have "nat \<bar>n\<bar> < 2 ^ 53" by (simp add: nat_less_iff)
  then have "bit_length (nat \<bar>n\<bar>) \<le> 53" by (rule bit_length_less)
  then show ?thesis by (simp add: float64_of_int_def Let_def)
qed

text \<open>The bounds of 8 bits are exact; the upper bound of 64 bits is not.\<close>

lemma min_val_8: "min_val 8 = - 128"
  by (simp add: min_val_def float64_of_int_small)

lemma max_val_8: "max_val 8 = 127"
  by (simp add: max_val_def float64_of_int_small)

lemma min_val_64: "min_val 64 = - (2 ^ 63)"
proof -
  have "bit_length (nat \<bar>- (2 ^ 63) :: int\<bar>) = Suc 63"
    by (rule bit_length_eq) simp_all
  then have "float64_of_int (- (2 ^ 63)) = - (2 ^ 63)"
    by (simp add: float64_of_int_def np_round_def Let_def)
  then show ?thesis by (simp add: min_val_def)
qed

lemma max_val_64: "max_val 64 = 2 ^ 63"
proof -
  have "bit_length (nat \<bar>2 ^ 63 - 1 :: int\<bar>) = Suc 62"
    by (rule bit_length_eq) simp_all
  then have "float64_of_int (2 ^ 63 - 1) = 2 ^ 63"
    by (simp add: float64_of_int_def np_round_def Let_def)
  then show ?thesis by (simp add: max_val_def)
qed

subsection \<open>Clipping\<close>

lemma np_max_eq: "vals \<noteq> [] \<Longrightarrow> np_max vals = Inr (Max (set vals))"
proof (cases vals)
  case (Cons x xs)
  then show ?thesis using Max.set_eq_fold [of x xs] by simp
qed simp

lemma np_min_eq: "vals \<noteq> [] \<Longrightarrow> np_min vals = Inr (Min (set vals))"
proof (cases vals)
  case (Cons x xs)
  then show ?thesis using Min.set_eq_fold [of x xs] by simp
qed simp

lemma clip_range_eq:
  assumes "vals \<noteq> []"
  shows "clip_range vals b =
           Inr (if \<exists>v\<in>set vals. max_val b < v \<or> v < min_val b
                then [overflow_warning] else [],
                np_clip vals (min_val b) (max_val b))"
proof -
  have fin: "finite (set vals)" "set vals \<noteq> {}" using assms by simp_all
  have mx: "(max_val b < Max (set vals)) = (\<exists>v\<in>set vals. max_val b < v)"
    using fin by (simp add: Max_gr_iff)
  have mn: "(Min (set vals) < min_val b) = (\<exists>v\<in>set vals. v < min_val b)"
    using fin by (simp add: Min_less_iff)
  show ?thesis
    using mx mn by (auto simp add: clip_range_def np_max_eq [OF assms] np_min_eq [OF assms])
qed

subsection \<open>Quantization at 64 bits\<close>

text \<open>
  C10. The claim, every element of the result within \<open>[-2^(bit_width-1),
  2^(bit_width-1) - 1]\<close>, is what \<open>clip_range\<close> is written to do, and the code misses it at
  bit width 64, the width the tool itself uses: the upper bound \<open>2**63 - 1\<close> enters
  \<open>np.clip\<close> as the double \<open>2^63\<close>. On \<open>quantize_data([2.0**64], 1.0, 0, 64)\<close> the warning
  is logged and the element returned is \<open>2^63\<close>, above the range.
\<close>

theorem quantize_data_64_above_range:
  "quantize_data [2 ^ 64] 1 0 64 = Inr ([overflow_warning], [2 ^ 63])
   \<and> (2::real) ^ (64 - 1) - 1 < 2 ^ 63"
  by (simp add: quantize_data_def clip_range_eq np_clip_def np_round_def min_val_64 max_val_64)

text \<open>
  C5. The claim has \<open>quantize\<close> clamp each element into \<open>[-2^(b-1), 2^(b-1) - 1]\<close> and
  log a warning when a value before clamping lies outside. By the same conversion of the
  upper bound, \<open>quantize_data([2.0**63], 1.0, 0, 64)\<close> returns \<open>2^63\<close> unclamped, and logs
  nothing, though \<open>2^63\<close> is outside the range. The spec's two examples at 8 bits hold.
\<close>

theorem quantize_data_64_unclamped:
  "quantize_data [2 ^ 63] 1 0 64 = Inr ([], [2 ^ 63])
   \<and> (2::real) ^ (64 - 1) - 1 < 2 ^ 63
   \<and> quantize_data [1000] 1 0 8 = Inr ([overflow_warning], [127])
   \<and> quantize_data [- 1000] 1 0 8 = Inr ([overflow_warning], [- 128])"
proof -
  have 1: "quantize_data [2 ^ 63] 1 0 64 = Inr ([], [2 ^ 63]) \<and> (2::real) ^ (64 - 1) - 1 < 2 ^ 63"
    by (simp add: quantize_data_def clip_range_eq np_clip_def np_round_def min_val_64 max_val_64)
  have 2: "quantize_data [1000] 1 0 8 = Inr ([overflow_warning], [127])"
    by (simp add: quantize_data_def clip_range_eq np_clip_def np_round_def min_val_8 max_val_8)
  have 3: "quantize_data [- 1000] 1 0 8 = Inr ([overflow_warning], [- 128])"
    by (simp add: quantize_data_def clip_range_eq np_clip_def np_round_def min_val_8 max_val_8)
  show ?thesis using 1 2 3 by blast
qed

subsection \<open>Activation retyping\<close>

lemma change_quantization_settings_ok:
  assumes "quantizedDimension (quantization (tensors m ! r)) = 0"
    and "scale (quantization (tensors m ! r)) = s # ss"
    and "zeroPoint (quantization (tensors m ! r)) = z # zs"
  shows "change_quantization_settings_8to16 m r =
           Inr (m\<lparr>tensors := (tensors m)
                  [r := (tensors m ! r)
                     \<lparr>quantization := (quantization (tensors m ! r))
                        \<lparr>scale := [max \<bar>s * (128 - of_int z)\<bar> \<bar>s * (- 128 - of_int z)\<bar> / 32767],
                         zeroPoint := [0]\<rparr>\<rparr>]\<rparr>)"
  using assms by (simp add: change_quantization_settings_8to16_def Let_def getitem_Cons_0)

text \<open>
  C1. An int8 tensor with \<open>quantizedDimension = 0\<close>, first scale \<open>s\<close> and first zero point
  \<open>z\<close>: activation retyping returns, and in the state it returns the tensor has scale
  \<open>[max(|s*(128 - z)|, |s*(-128 - z)|) / 32767]\<close>, zero point \<open>[0]\<close> and type int16.
\<close>

theorem activation_retyping_8to16:
  assumes "r < length (tensors m)"
    and "type (tensors m ! r) = INT8"
    and "quantizedDimension (quantization (tensors m ! r)) = 0"
    and "scale (quantization (tensors m ! r)) = s # ss"
    and "zeroPoint (quantization (tensors m ! r)) = z # zs"
  shows "\<exists>m'. change_activation_tensor_8to16 m r = Inr m'
           \<and> scale (quantization (tensors m' ! r)) =
               [max \<bar>s * (128 - of_int z)\<bar> \<bar>s * (- 128 - of_int z)\<bar> / 32767]
           \<and> zeroPoint (quantization (tensors m' ! r)) = [0]
           \<and> type (tensors m' ! r) = INT16"
  using assms
  by (simp add: change_activation_tensor_8to16_def lookup_code_int8 lookup_code_int16
      change_quantization_settings_ok set_type_def logging_info_def)

text \<open>The spec's example: scale 0.5 and zero point 10 give the scale \<open>69 / 32767\<close>.\<close>

theorem activation_retyping_8to16_witness:
  "\<exists>m'. change_activation_tensor_8to16 activation_example 0 = Inr m'
     \<and> scale (quantization (tensors m' ! 0)) = [69 / 32767]
     \<and> zeroPoint (quantization (tensors m' ! 0)) = [0]
     \<and> type (tensors m' ! 0) = INT16"
  using activation_retyping_8to16 [of 0 activation_example "0.5" "[]" 10 "[]"]
  by (simp add: activation_example_def)

text \<open>What a call of activation retyping can do.\<close>

lemma change_quantization_settings_cases:
  "(\<exists>e. change_quantization_settings_8to16 m r = Inl (e, m))
   \<or> (\<exists>sc. change_quantization_settings_8to16 m r =
         Inr (m\<lparr>tensors := (tensors m)
                [r := (tensors m ! r)
                   \<lparr>quantization := (quantization (tensors m ! r))
                      \<lparr>scale := [sc], zeroPoint := [0]\<rparr>\<rparr>]\<rparr>))"
  by (auto simp add: change_quantization_settings_8to16_def Let_def split: sum.split)

lemma change_activation_not_int8:
  "type (tensors m ! r) \<noteq> INT8 \<Longrightarrow> change_activation_tensor_8to16 m r = Inr m"
  by (simp add: change_activation_tensor_8to16_def lookup_code_int8)

lemma change_activation_int8:
  assumes "type (tensors m ! r) = INT8" and "r < length (tensors m)"
  shows "(\<exists>e. change_activation_tensor_8to16 m r = Inl (e, m))
       \<or> (\<exists>sc. change_activation_tensor_8to16 m r = Inr (retyped m r sc))"
proof -
  consider e where "change_quantization_settings_8to16 m r = Inl (e, m)"
    | sc where "change_quantization_settings_8to16 m r =
         Inr (m\<lparr>tensors := (tensors m)
                [r := (tensors m ! r)
                   \<lparr>quantization := (quantization (tensors m ! r))
                      \<lparr>scale := [sc], zeroPoint := [0]\<rparr>\<rparr>]\<rparr>)"
    using change_quantization_settings_cases [of m r] by blast
  then show ?thesis
  proof cases
    case 1
    then show ?thesis
      using assms by (simp add: change_activation_tensor_8to16_def lookup_code_int8)
  next
    case 2
    have "change_activation_tensor_8to16 m r = Inr (retyped m r sc)"
      using 2 assms
      by (simp add: change_activation_tensor_8to16_def lookup_code_int8 lookup_code_int16
          set_type_def logging_info_def retyped_def)
    then show ?thesis by blast
  qed
qed

lemma change_activation_outcome:
  assumes "r < length (tensors m)"
  shows "change_activation_tensor_8to16 m r = Inr m
       \<or> (\<exists>e. change_activation_tensor_8to16 m r = Inl (e, m))
       \<or> (\<exists>sc. type (tensors m ! r) = INT8
              \<and> change_activation_tensor_8to16 m r = Inr (retyped m r sc))"
  using change_activation_not_int8 [of m r] change_activation_int8 [OF _ assms]
  by (cases "type (tensors m ! r) = INT8") auto

lemma example_activation_retyped:
  "change_activation_tensor_8to16 (softmax_example 0) 0
     = Inr (retyped (softmax_example 0) 0 (69 / 32767))"
  by (simp add: change_activation_tensor_8to16_def lookup_code_int8 lookup_code_int16
      change_quantization_settings_8to16_def getitem_def py_index_def Let_def
      set_type_def logging_info_def retyped_def softmax_example_def)

text \<open>
  C7. For every tensor, the state after two applications of activation retyping is the
  state after one: an application that returns on an int8 tensor has set the type to
  int16, so the next is a no-op; an application that raises has changed nothing; and a
  tensor whose type is not int8 is not touched at all.
\<close>

theorem activation_retyping_idempotent:
  assumes "r < length (tensors m)"
  shows "final_state (change_activation_tensor_8to16
           (final_state (change_activation_tensor_8to16 m r)) r)
         = final_state (change_activation_tensor_8to16 m r)
       \<and> (\<forall>m'. change_activation_tensor_8to16 m r = Inr m' \<longrightarrow>
             change_activation_tensor_8to16 m' r = Inr m')
       \<and> (type (tensors m ! r) \<noteq> INT8 \<longrightarrow> change_activation_tensor_8to16 m r = Inr m)
       \<and> (\<forall>m'. type (tensors m ! r) = INT8 \<and> change_activation_tensor_8to16 m r = Inr m' \<longrightarrow>
             type (tensors m' ! r) = INT16)"
proof (cases "type (tensors m ! r) = INT8")
  case False
  then show ?thesis by (simp add: change_activation_not_int8 final_state_def)
next
  case True
  then consider e where "change_activation_tensor_8to16 m r = Inl (e, m)"
    | sc where "change_activation_tensor_8to16 m r = Inr (retyped m r sc)"
    using change_activation_int8 [OF _ assms] by blast
  then show ?thesis
  proof cases
    case 1
    then show ?thesis using True by (simp add: final_state_def)
  next
    case 2
    have t: "type (tensors (retyped m r sc) ! r) = INT16"
      using assms by (simp add: retyped_def)
    then have "type (tensors (retyped m r sc) ! r) \<noteq> INT8" by simp
    then have "change_activation_tensor_8to16 (retyped m r sc) r = Inr (retyped m r sc)"
      by (rule change_activation_not_int8)
    then show ?thesis using 2 True t by (simp add: final_state_def)
  qed
qed

theorem activation_retyping_idempotent_witness:
  "final_state (change_activation_tensor_8to16
      (final_state (change_activation_tensor_8to16 (softmax_example 0) 0)) 0)
    = final_state (change_activation_tensor_8to16 (softmax_example 0) 0)
   \<and> type (tensors (final_state (change_activation_tensor_8to16 (softmax_example 0) 0)) ! 0)
       = INT16"
proof -
  have "type (tensors (final_state (change_activation_tensor_8to16 (softmax_example 0) 0)) ! 0)
          = INT16"
    unfolding example_activation_retyped
    by (simp add: final_state_def retyped_def softmax_example_def)
  then show ?thesis
    using activation_retyping_idempotent [of 0 "softmax_example 0"]
    by (simp add: softmax_example_def)
qed

text \<open>
  C3, as amended. For every tensor of type int8 whose \<open>quantizedDimension\<close> is not 0,
  activation retyping raises RuntimeError, and the state at the raise is the state
  before the call: no field of the tensor, or of anything else, has changed.
\<close>

theorem per_channel_activation_raises:
  assumes "type (tensors m ! r) = INT8"
    and "quantizedDimension (quantization (tensors m ! r)) \<noteq> 0"
  shows "change_activation_tensor_8to16 m r = Inl (RuntimeError, m)"
  using assms
  by (simp add: change_activation_tensor_8to16_def lookup_code_int8
      change_quantization_settings_8to16_def Let_def)

theorem per_channel_activation_raises_witness:
  "change_activation_tensor_8to16 (softmax_example 1) 0 = Inl (RuntimeError, softmax_example 1)"
  using per_channel_activation_raises [of "softmax_example 1" 0]
  by (simp add: softmax_example_def)

subsection \<open>Buffers\<close>

lemma bytes_sum:
  fixes a :: nat
  assumes "a < 4294967296"
  shows "a mod 256 + 256 * (a div 256 mod 256) + 65536 * (a div 65536 mod 256)
           + 16777216 * (a div 16777216 mod 256) = a"
proof -
  have d1: "a div 65536 = a div 256 div 256" by (simp add: div_mult2_eq [symmetric])
  have d2: "a div 16777216 = a div 65536 div 256" by (simp add: div_mult2_eq [symmetric])
  have top: "a div 16777216 mod 256 = a div 16777216" using assms by simp
  have e0: "a = a mod 256 + 256 * (a div 256)" by simp
  have e1: "a div 256 = a div 256 mod 256 + 256 * (a div 65536)" unfolding d1 by simp
  have e2: "a div 65536 = a div 65536 mod 256 + 256 * (a div 16777216)" unfolding d2 by simp
  show ?thesis using e0 e1 e2 top by linarith
qed

lemma unat_byte:
  fixes w :: "32 word"
  shows "unat (ucast (drop_bit n w) :: 8 word) = unat w div 2 ^ n mod 256"
proof -
  have "unat (ucast (drop_bit n w) :: 8 word) = take_bit 8 (drop_bit n (unat w))"
    by (simp add: unsigned_ucast_eq unat_drop_bit_eq)
  then show ?thesis by (simp add: take_bit_eq_mod drop_bit_eq_div)
qed

lemma le_int32_bytes:
  "le_int32 (ucast w) (ucast (drop_bit 8 w)) (ucast (drop_bit 16 w)) (ucast (drop_bit 24 w)) = w"
proof -
  have lt: "unat w < 4294967296" using unsigned_less [of w, where ?'a = nat] by simp
  have u0: "unat (ucast w :: 8 word) = unat w mod 256" using unat_byte [of 0 w] by simp
  have u1: "unat (ucast (drop_bit 8 w) :: 8 word) = unat w div 256 mod 256"
    using unat_byte [of 8 w] by simp
  have u2: "unat (ucast (drop_bit 16 w) :: 8 word) = unat w div 65536 mod 256"
    using unat_byte [of 16 w] by simp
  have u3: "unat (ucast (drop_bit 24 w) :: 8 word) = unat w div 16777216 mod 256"
    using unat_byte [of 24 w] by simp
  have "le_int32 (ucast w) (ucast (drop_bit 8 w)) (ucast (drop_bit 16 w)) (ucast (drop_bit 24 w))
          = word_of_nat (unat w)"
    by (simp only: le_int32_def u0 u1 u2 u3 bytes_sum [OF lt])
  then show ?thesis by simp
qed

lemma bytes_int32_eq:
  "bytes_int32 w = [ucast w, ucast (drop_bit 8 w), ucast (drop_bit 16 w), ucast (drop_bit 24 w)]"
  by (simp add: bytes_int32_def upt_rec)

text \<open>Reading back the bytes of an int32 array gives the array.\<close>

lemma frombuffer_tobytes_append:
  "frombuffer_int32 (tobytes_int32 q @ bs) =
     (case frombuffer_int32 bs of Inl e \<Rightarrow> Inl e | Inr ws \<Rightarrow> Inr (q @ ws))"
  by (induction q)
    (simp_all add: tobytes_int32_def bytes_int32_eq le_int32_bytes split: sum.split)

lemma frombuffer_tobytes_int32: "frombuffer_int32 (tobytes_int32 q) = Inr q"
  using frombuffer_tobytes_append [of q "[]"] by simp

subsection \<open>Bias retyping\<close>

text \<open>With the zero point 0 nothing wraps: the int32 array is dequantized as it is.\<close>

lemma dequantize_data_int32_zero:
  "dequantize_data_int32 q s 0 = dequantize_data (map (\<lambda>w. real_of_int (sint w)) q) s 0"
  by (simp add: dequantize_data_int32_def dequantize_data_def int32_minus_def)

lemma set_bias_type_int64_eq:
  assumes "bias < length (tensors m)"
    and "py_index (length (buffers m)) (buffer (tensors m ! bias)) = Inr k"
    and "data (buffers m ! k) = tobytes_int32 q"
    and "scale (quantization (tensors m ! bias)) = sb # sbs"
    and "zeroPoint (quantization (tensors m ! bias)) = zb # zbs"
    and "scale (quantization (tensors m ! input)) = si # sis"
    and "scale (quantization (tensors m ! weight)) = sw # sws"
  shows "set_bias_type_int64 m input weight bias =
     (case quantize_data (dequantize_data_int32 q sb zb) (si * sw) 0 64 of
        Inl e \<Rightarrow> Inl (e, m)
      | Inr (msgs, vals) \<Rightarrow>
          Inr (m\<lparr>buffers := (buffers m)
                 [k := (buffers m ! k)\<lparr>data := tobytes_int64 (astype_int64 vals)\<rparr>],
                tensors := (tensors m)
                 [bias := (tensors m ! bias)
                    \<lparr>type := INT64,
                     quantization := (quantization (tensors m ! bias))
                       \<lparr>scale := [si * sw], zeroPoint := [0]\<rparr>\<rparr>],
                logged := logged m @ msgs
                   @ [''Set '' @ name (tensors m ! bias) @ '' from int32 to int64'']\<rparr>))"
  using assms
  by (simp add: set_bias_type_int64_def getitem_Cons_0 frombuffer_tobytes_int32 Let_def
      lookup_code_int64 set_type_def logging_info_def split: sum.split prod.split)

lemma bias_example_quantize:
  "quantize_data (dequantize_data_int32 [5, - 5] 0.05 0) (0.1 * 0.2) 0 64 = Inr ([], [12, - 12])"
  by (simp add: dequantize_data_int32_def int32_minus_def quantize_data_def clip_range_eq
      np_clip_def np_round_def min_val_64 max_val_64)

lemma set_bias_example:
  "set_bias_type_int64 (bias_example qd) 0 1 2 =
     Inr ((bias_example qd)
       \<lparr>buffers := (buffers (bias_example qd))
                 [2 := \<lparr>data = tobytes_int64 [12, - 12]\<rparr>],
        tensors := (tensors (bias_example qd))
                 [2 := \<lparr>name = ''bias'', type = INT64, buffer = 2,
          quantization = \<lparr>scale = [0.02], zeroPoint = [0], quantizedDimension = qd\<rparr>\<rparr>],
        logged := [''Set bias from int32 to int64'']\<rparr>)"
proof -
  have b: "astype_int64 [12, - 12] = [12, - 12]" by (simp add: astype_int64_def)
  have eq: "set_bias_type_int64 (bias_example qd) 0 1 2 =
     (case quantize_data (dequantize_data_int32 [5, - 5] 0.05 0) (0.1 * 0.2) 0 64 of
        Inl e \<Rightarrow> Inl (e, bias_example qd)
      | Inr (msgs, vals) \<Rightarrow>
          Inr ((bias_example qd)\<lparr>buffers := (buffers (bias_example qd))
                 [2 := (buffers (bias_example qd) ! 2)\<lparr>data := tobytes_int64 (astype_int64 vals)\<rparr>],
                tensors := (tensors (bias_example qd))
                 [2 := (tensors (bias_example qd) ! 2)
                    \<lparr>type := INT64,
                     quantization := (quantization (tensors (bias_example qd) ! 2))
                       \<lparr>scale := [0.1 * 0.2], zeroPoint := [0]\<rparr>\<rparr>],
                logged := logged (bias_example qd) @ msgs
                   @ [''Set '' @ name (tensors (bias_example qd) ! 2) @ '' from int32 to int64'']\<rparr>))"
    by (rule set_bias_type_int64_eq [where sbs = "[]" and zbs = "[]" and sis = "[]" and sws = "[]"])
      (simp_all add: bias_example_def py_index_def)
  show ?thesis
    unfolding eq bias_example_quantize by (simp add: b) (simp add: bias_example_def)
qed

text \<open>
  C2. The claim has the buffer hold the 64-bit signed encoding of
  \<open>quantize(dequantize(q, sb, zb), si*sw, 0, 64)\<close>, a quantization that saturates into
  \<open>[-2^63, 2^63 - 1]\<close>. The code misses it where the quantization saturates upwards. In
  the example the bias is the int32 \<open>[1]\<close> at scale 1 and the input and weight scales
  are \<open>2^-32\<close>, so the value to store is \<open>2^64\<close>: \<open>quantize_data\<close> logs the warning and,
  its upper bound being the double \<open>2^63\<close>, returns \<open>2^63\<close>, which \<open>astype(np.int64)\<close>
  turns into \<open>-2^63\<close>. The buffer ends with the bytes of \<open>-2^63\<close>, not those of the
  saturated \<open>2^63 - 1\<close>; type, scale and zero point are set as the claim says.
\<close>

theorem bias_saturation_stores_minimum:
  "quantize_data (dequantize_data_int32 [1] 1 0) (1 / 2 ^ 32 * (1 / 2 ^ 32)) 0 64
     = Inr ([overflow_warning], [2 ^ 63])
   \<and> (\<exists>m'. set_bias_type_int64 bias_overflow_example 0 1 2 = Inr m'
         \<and> data (buffers m' ! 2) = [0, 0, 0, 0, 0, 0, 0, 128]
         \<and> data (buffers m' ! 2) = tobytes_int64 [- (2 ^ 63)]
         \<and> data (buffers m' ! 2) \<noteq> tobytes_int64 [2 ^ 63 - 1]
         \<and> type (tensors m' ! 2) = INT64
         \<and> scale (quantization (tensors m' ! 2)) = [1 / 2 ^ 64]
         \<and> zeroPoint (quantization (tensors m' ! 2)) = [0])"
proof -
  have q: "quantize_data (dequantize_data_int32 [1] 1 0) (1 / 2 ^ 32 * (1 / 2 ^ 32)) 0 64
     = Inr ([overflow_warning], [2 ^ 63])"
    by (simp add: dequantize_data_int32_def int32_minus_def quantize_data_def clip_range_eq
        np_clip_def np_round_def min_val_64 max_val_64)
  have a: "astype_int64 [9223372036854775808] = [- 9223372036854775808]"
    by (simp add: astype_int64_def)
  have b: "tobytes_int64 [- 9223372036854775808] = [0, 0, 0, 0, 0, 0, 0, 128]"
    by (simp add: tobytes_int64_def bytes_int64_def upt_rec)
  have c: "tobytes_int64 [9223372036854775807] = [255, 255, 255, 255, 255, 255, 255, 127]"
    by (simp add: tobytes_int64_def bytes_int64_def upt_rec)
  have eq: "set_bias_type_int64 bias_overflow_example 0 1 2 =
     (case quantize_data (dequantize_data_int32 [1] 1 0) (1 / 2 ^ 32 * (1 / 2 ^ 32)) 0 64 of
        Inl e \<Rightarrow> Inl (e, bias_overflow_example)
      | Inr (msgs, vals) \<Rightarrow>
          Inr (bias_overflow_example\<lparr>buffers := (buffers bias_overflow_example)
                 [2 := (buffers bias_overflow_example ! 2)
                    \<lparr>data := tobytes_int64 (astype_int64 vals)\<rparr>],
                tensors := (tensors bias_overflow_example)
                 [2 := (tensors bias_overflow_example ! 2)
                    \<lparr>type := INT64,
                     quantization := (quantization (tensors bias_overflow_example ! 2))
                       \<lparr>scale := [1 / 2 ^ 32 * (1 / 2 ^ 32)], zeroPoint := [0]\<rparr>\<rparr>],
                logged := logged bias_overflow_example @ msgs
                   @ [''Set '' @ name (tensors bias_overflow_example ! 2)
                        @ '' from int32 to int64'']\<rparr>))"
    by (rule set_bias_type_int64_eq [where sbs = "[]" and zbs = "[]" and sis = "[]" and sws = "[]"])
      (simp_all add: bias_overflow_example_def py_index_def)
  have "\<exists>m'. set_bias_type_int64 bias_overflow_example 0 1 2 = Inr m'
         \<and> data (buffers m' ! 2) = [0, 0, 0, 0, 0, 0, 0, 128]
         \<and> data (buffers m' ! 2) = tobytes_int64 [- (2 ^ 63)]
         \<and> data (buffers m' ! 2) \<noteq> tobytes_int64 [2 ^ 63 - 1]
         \<and> type (tensors m' ! 2) = INT64
         \<and> scale (quantization (tensors m' ! 2)) = [1 / 2 ^ 64]
         \<and> zeroPoint (quantization (tensors m' ! 2)) = [0]"
    unfolding eq q by (simp add: a b c) (simp add: bias_overflow_example_def)
  then show ?thesis using q by blast
qed

text \<open>
  C4, as amended. In the spec's bias example the new bias scale is 0.02 with zero point
  0 and the dequantized values are \<open>[0.25, -0.25]\<close>; the values stored as 64-bit integers
  are \<open>[12, -12]\<close>: 0.25 / 0.02 = 12.5 is halfway between 12 and 13, and \<open>np.round\<close> takes
  the even one.
\<close>

theorem bias_example_values:
  "dequantize_data [5, - 5] 0.05 0 = [0.25, - 0.25]
   \<and> quantize_data [0.25, - 0.25] (0.1 * 0.2) 0 64 = Inr ([], [12, - 12])
   \<and> (\<exists>m'. set_bias_type_int64 (bias_example 0) 0 1 2 = Inr m'
         \<and> scale (quantization (tensors m' ! 2)) = [0.02]
         \<and> zeroPoint (quantization (tensors m' ! 2)) = [0]
         \<and> type (tensors m' ! 2) = INT64
         \<and> data (buffers m' ! 2) = tobytes_int64 [12, - 12])"
proof -
  have 1: "dequantize_data [5, - 5] 0.05 0 = [0.25, - 0.25]"
    by (simp add: dequantize_data_def)
  have 2: "quantize_data [0.25, - 0.25] (0.1 * 0.2) 0 64 = Inr ([], [12, - 12])"
    by (simp add: quantize_data_def clip_range_eq np_clip_def np_round_def min_val_64 max_val_64)
  have 3: "\<exists>m'. set_bias_type_int64 (bias_example 0) 0 1 2 = Inr m'
         \<and> scale (quantization (tensors m' ! 2)) = [0.02]
         \<and> zeroPoint (quantization (tensors m' ! 2)) = [0]
         \<and> type (tensors m' ! 2) = INT64
         \<and> data (buffers m' ! 2) = tobytes_int64 [12, - 12]"
    unfolding set_bias_example by (simp add: bias_example_def)
  show ?thesis using 1 2 3 by blast
qed

text \<open>C4 as the spec states it: the stored values are not \<open>[13, -13]\<close>.\<close>

theorem bias_example_not_13:
  "\<not> (\<exists>m'. set_bias_type_int64 (bias_example 0) 0 1 2 = Inr m'
          \<and> data (buffers m' ! 2) = tobytes_int64 [13, - 13])
   \<and> (\<forall>msgs. quantize_data [0.25, - 0.25] (0.1 * 0.2) 0 64 \<noteq> Inr (msgs, [13, - 13]))"
proof -
  have "tobytes_int64 [12, - 12] \<noteq> tobytes_int64 [13, - 13]"
    by (simp add: tobytes_int64_def bytes_int64_def upt_rec)
  then have 1: "\<not> (\<exists>m'. set_bias_type_int64 (bias_example 0) 0 1 2 = Inr m'
          \<and> data (buffers m' ! 2) = tobytes_int64 [13, - 13])"
    unfolding set_bias_example by (simp add: bias_example_def)
  have 2: "\<forall>msgs. quantize_data [0.25, - 0.25] (0.1 * 0.2) 0 64 \<noteq> Inr (msgs, [13, - 13])"
    by (simp add: quantize_data_def clip_range_eq np_clip_def np_round_def min_val_64 max_val_64)
  show ?thesis using 1 2 by blast
qed

text \<open>
  C3 as the spec states it, for every tensor the conversion touches, fails twice. A
  tensor that is not int8 passes activation retyping untouched and without an error,
  whatever its \<open>quantizedDimension\<close>. And bias retyping never reads
  \<open>quantizedDimension\<close>: the bias of the example, with \<open>quantizedDimension = 1\<close>, is
  converted, type and buffer, and nothing is raised.
\<close>

theorem per_channel_not_always_fatal:
  "quantizedDimension (quantization (tensors per_channel_int16_example ! 0)) = 1
   \<and> change_activation_tensor_8to16 per_channel_int16_example 0 = Inr per_channel_int16_example
   \<and> quantizedDimension (quantization (tensors (bias_example 1) ! 2)) = 1
   \<and> (\<exists>m'. set_bias_type_int64 (bias_example 1) 0 1 2 = Inr m'
         \<and> type (tensors m' ! 2) = INT64
         \<and> type (tensors (bias_example 1) ! 2) = INT32
         \<and> data (buffers m' ! 2) \<noteq> data (buffers (bias_example 1) ! 2))"
proof -
  have 1: "quantizedDimension (quantization (tensors per_channel_int16_example ! 0)) = 1
     \<and> change_activation_tensor_8to16 per_channel_int16_example 0 = Inr per_channel_int16_example"
    by (simp add: change_activation_tensor_8to16_def lookup_code_int8 per_channel_int16_example_def)
  have "tobytes_int64 [12, - 12] \<noteq> tobytes_int32 [5, - 5]"
    by (simp add: tobytes_int64_def bytes_int64_def tobytes_int32_def bytes_int32_def upt_rec)
  then have 2: "quantizedDimension (quantization (tensors (bias_example 1) ! 2)) = 1
   \<and> (\<exists>m'. set_bias_type_int64 (bias_example 1) 0 1 2 = Inr m'
         \<and> type (tensors m' ! 2) = INT64
         \<and> type (tensors (bias_example 1) ! 2) = INT32
         \<and> data (buffers m' ! 2) \<noteq> data (buffers (bias_example 1) ! 2))"
    unfolding set_bias_example by (simp add: bias_example_def)
  show ?thesis using 1 2 by blast
qed

subsection \<open>What the retyping functions leave alone\<close>

lemma retyped_frame:
  "buffers (retyped m r sc) = buffers m"
  "length (tensors (retyped m r sc)) = length (tensors m)"
  "j \<noteq> r \<Longrightarrow> tensors (retyped m r sc) ! j = tensors m ! j"
  by (simp_all add: retyped_def)

lemma retyped_buffer: "buffer (tensors (retyped m r sc) ! j) = buffer (tensors m ! j)"
  by (cases "j = r"; cases "r < length (tensors m)") (simp_all add: retyped_def list_update_beyond)

lemma change_activation_frame:
  assumes "r < length (tensors m)"
  shows "buffers (final_state (change_activation_tensor_8to16 m r)) = buffers m"
    and "length (tensors (final_state (change_activation_tensor_8to16 m r))) = length (tensors m)"
    and "j \<noteq> r \<Longrightarrow> tensors (final_state (change_activation_tensor_8to16 m r)) ! j = tensors m ! j"
    and "buffer (tensors (final_state (change_activation_tensor_8to16 m r)) ! j) = buffer (tensors m ! j)"
  using change_activation_outcome [OF assms]
  by (auto simp: final_state_def retyped_frame retyped_buffer)

lemma change_activation_raised:
  assumes "r < length (tensors m)" and "change_activation_tensor_8to16 m r = Inl (e, m')"
  shows "m' = m"
  using change_activation_outcome [OF assms(1)] assms(2) by auto

lemma set_bias_frame_tensors:
  "j \<noteq> bias \<Longrightarrow> tensors (final_state (set_bias_type_int64 m i w bias)) ! j = tensors m ! j"
  by (simp add: set_bias_type_int64_def final_state_def Let_def set_type_def logging_info_def
      lookup_code_int64 split: sum.split prod.split)

lemma set_bias_frame_buffers:
  assumes "py_index (length (buffers m)) (buffer (tensors m ! bias)) \<noteq> Inr k'"
  shows "buffers (final_state (set_bias_type_int64 m i w bias)) ! k' = buffers m ! k'"
  using assms
  by (auto simp add: set_bias_type_int64_def final_state_def Let_def set_type_def logging_info_def
      lookup_code_int64 split: sum.split prod.split)


lemma retype_activations_frame:
  assumes "inp < length (tensors m)" and "outp < length (tensors m)"
  shows "buffers (final_state (retype_activations m inp outp)) = buffers m
       \<and> length (tensors (final_state (retype_activations m inp outp))) = length (tensors m)
       \<and> (\<forall>j. j \<noteq> inp \<longrightarrow> j \<noteq> outp \<longrightarrow>
             tensors (final_state (retype_activations m inp outp)) ! j = tensors m ! j)
       \<and> (\<forall>j. buffer (tensors (final_state (retype_activations m inp outp)) ! j)
               = buffer (tensors m ! j))"
proof (cases "change_activation_tensor_8to16 m inp")
  case (Inl em)
  obtain e m' where em: "em = (e, m')" by (cases em)
  have "m' = m" using change_activation_raised [OF assms(1)] Inl em by simp
  then show ?thesis by (simp add: retype_activations_def Inl em final_state_def)
next
  case (Inr m1)
  have f1: "buffers m1 = buffers m" "length (tensors m1) = length (tensors m)"
    "\<And>j. j \<noteq> inp \<Longrightarrow> tensors m1 ! j = tensors m ! j"
    "\<And>j. buffer (tensors m1 ! j) = buffer (tensors m ! j)"
    using change_activation_frame [OF assms(1)] Inr by (simp_all add: final_state_def)
  have o1: "outp < length (tensors m1)" using f1(2) assms(2) by simp
  have eq: "retype_activations m inp outp = change_activation_tensor_8to16 m1 outp"
    by (simp add: retype_activations_def Inr)
  show ?thesis
    unfolding eq using change_activation_frame [OF o1] f1 by simp
qed

subsection \<open>The softmax operator\<close>

lemma requantize_softmax_eq:
  assumes "getitem (inputs op) 0 = Inr i0" and "tensor_ref m i0 = Inr inp"
    and "getitem (outputs op) 0 = Inr o0" and "tensor_ref m o0 = Inr outp"
  shows "requantize_softmax m op =
     (case change_activation_tensor_8to16 m inp of
        Inl em \<Rightarrow> Inl em
      | Inr m1 \<Rightarrow> if type (tensors m1 ! outp) = INT8 then Inr (softmax_output m1 outp) else Inr m1)"
proof -
  have len: "outp < length (tensors m)" using assms(4) by (rule tensor_ref_less)
  have inp: "inp < length (tensors m)" using assms(2) by (rule tensor_ref_less)
  have "outp < length (tensors m1)" if "change_activation_tensor_8to16 m inp = Inr m1" for m1
    using change_activation_frame(2) [OF inp] that len by (simp add: final_state_def)
  then show ?thesis
    using assms
    by (simp add: requantize_softmax_def lookup_code_int8 lookup_code_int16 Let_def
        set_type_def logging_info_def softmax_output_def split: sum.split)
qed

text \<open>
  C8, as amended. A softmax operator whose first input and first output name tensors of
  the model. If the output tensor has type int8, is not the input tensor, and the
  retyping of the input returns, then requantization returns and the output tensor has
  scale \<open>[1/32768]\<close>, zero point \<open>[0]\<close> and type int16, whatever its scale and zero point
  were. If the output tensor does not have type int8, it is the same after the call as
  before, whether the call returns or raises.
\<close>

theorem softmax_output_retyping:
  assumes "getitem (inputs op) 0 = Inr i0" and "tensor_ref m i0 = Inr inp"
    and "getitem (outputs op) 0 = Inr o0" and "tensor_ref m o0 = Inr outp"
  shows "(type (tensors m ! outp) = INT8 \<and> inp \<noteq> outp \<longrightarrow>
            (\<forall>m1. change_activation_tensor_8to16 m inp = Inr m1 \<longrightarrow>
               (\<exists>m'. requantize_softmax m op = Inr m'
                  \<and> scale (quantization (tensors m' ! outp)) = [1 / 32768]
                  \<and> zeroPoint (quantization (tensors m' ! outp)) = [0]
                  \<and> type (tensors m' ! outp) = INT16)))
       \<and> (type (tensors m ! outp) \<noteq> INT8 \<longrightarrow>
            tensors (final_state (requantize_softmax m op)) ! outp = tensors m ! outp)"
proof -
  have len: "outp < length (tensors m)" using assms(4) by (rule tensor_ref_less)
  have inp: "inp < length (tensors m)" using assms(2) by (rule tensor_ref_less)
  note eq = requantize_softmax_eq [OF assms]
  have A: "\<exists>m'. requantize_softmax m op = Inr m'
                  \<and> scale (quantization (tensors m' ! outp)) = [1 / 32768]
                  \<and> zeroPoint (quantization (tensors m' ! outp)) = [0]
                  \<and> type (tensors m' ! outp) = INT16"
    if t: "type (tensors m ! outp) = INT8" and ne: "inp \<noteq> outp"
      and r: "change_activation_tensor_8to16 m inp = Inr m1" for m1
  proof -
    have same: "tensors m1 ! outp = tensors m ! outp"
      using change_activation_frame(3) [OF inp, of outp] ne r by (simp add: final_state_def)
    have l1: "outp < length (tensors m1)"
      using change_activation_frame(2) [OF inp] r len by (simp add: final_state_def)
    have "requantize_softmax m op = Inr (softmax_output m1 outp)"
      unfolding eq r using same t by simp
    then show ?thesis using l1 by (simp add: softmax_output_def)
  qed
  have B: "tensors (final_state (requantize_softmax m op)) ! outp = tensors m ! outp"
    if t: "type (tensors m ! outp) \<noteq> INT8"
  proof (cases "change_activation_tensor_8to16 m inp")
    case (Inl em)
    obtain e m' where em: "em = (e, m')" by (cases em)
    have "m' = m" using change_activation_raised [OF inp] Inl em by simp
    then show ?thesis unfolding eq Inl by (simp add: final_state_def em)
  next
    case (Inr m1)
    have same: "tensors m1 ! outp = tensors m ! outp"
    proof (cases "inp = outp")
      case True
      then have "change_activation_tensor_8to16 m inp = Inr m"
        using t by (simp add: change_activation_not_int8)
      then show ?thesis using Inr by simp
    next
      case False
      then show ?thesis
        using change_activation_frame(3) [OF inp, of outp] Inr by (simp add: final_state_def)
    qed
    then show ?thesis unfolding eq Inr using t by (simp add: final_state_def)
  qed
  show ?thesis using A B by blast
qed

theorem softmax_output_retyping_witness:
  "\<exists>m'. requantize_softmax (softmax_example 0) softmax_op = Inr m'
     \<and> scale (quantization (tensors m' ! 1)) = [1 / 32768]
     \<and> zeroPoint (quantization (tensors m' ! 1)) = [0]
     \<and> type (tensors m' ! 1) = INT16"
proof -
  have 1: "getitem (inputs softmax_op) 0 = Inr 0" "getitem (outputs softmax_op) 0 = Inr 1"
    by (simp_all add: softmax_op_def getitem_def py_index_def)
  have 2: "tensor_ref (softmax_example 0) 0 = Inr 0" "tensor_ref (softmax_example 0) 1 = Inr 1"
    by (simp_all add: tensor_ref_def softmax_example_def py_index_def)
  have 3: "type (tensors (softmax_example 0) ! 1) = INT8" "(0::nat) \<noteq> 1"
    by (simp_all add: softmax_example_def)
  show ?thesis
    using softmax_output_retyping [OF 1(1) 2(1) 1(2) 2(2)] 3 example_activation_retyped by blast
qed

text \<open>
  C8 as the spec states it, for every softmax operator with an int8 output, fails when
  the input is an int8 tensor quantized per channel: the retyping of the input raises,
  and the output tensor, still int8, keeps its scale and zero point.
\<close>

theorem softmax_per_channel_input_raises:
  "type (tensors (softmax_example 1) ! 1) = INT8
   \<and> requantize_softmax (softmax_example 1) softmax_op = Inl (RuntimeError, softmax_example 1)"
  by (simp add: requantize_softmax_def softmax_example_def softmax_op_def getitem_def py_index_def
      tensor_ref_def change_activation_tensor_8to16_def lookup_code_int8
      change_quantization_settings_8to16_def)

subsection \<open>The fully connected operator\<close>

lemma requantize_fully_connected_eq:
  assumes "getitem (inputs op) 0 = Inr i0" and "tensor_ref m i0 = Inr inp"
    and "getitem (inputs op) 1 = Inr i1" and "tensor_ref m i1 = Inr w"
    and "getitem (outputs op) 0 = Inr o0" and "tensor_ref m o0 = Inr outp"
  shows "requantize_fully_connected m op =
     (case retype_activations m inp outp of
        Inl em \<Rightarrow> Inl em
      | Inr m2 \<Rightarrow>
         (case getitem (inputs op) 2 of
            Inl e \<Rightarrow> Inl (e, m2)
          | Inr i2 \<Rightarrow>
              if i2 \<noteq> - 1
              then (case tensor_ref m2 i2 of
                      Inl e \<Rightarrow> Inl (e, m2)
                    | Inr bias \<Rightarrow> set_bias_type_int64 m2 inp w bias)
              else Inr m2))"
  using assms
  by (simp add: requantize_fully_connected_def retype_activations_def split: sum.split)

text \<open>
  C9, as amended. A fully connected operator whose input, weight and output slots name
  tensors of the model, the weight being neither the input nor the output tensor.
  \<^item> Requantization retypes the input, then the output, and then, only if the bias slot
    holds something other than \<open>-1\<close>, retypes the bias from the input and the weight.
  \<^item> When the bias slot holds \<open>-1\<close>, requantization is the retyping of the input followed
    by the retyping of the output and nothing else: it raises only if one of the two
    raises, no buffer changes, and no tensor but those two changes.
  \<^item> The weight tensor is the same after the call as before, provided the bias slot,
    when it names a tensor, does not name the weight.
  \<^item> The weight's buffer is the same after the call as before, provided the bias, when
    there is one, does not own that buffer.
\<close>

theorem fully_connected_frame:
  assumes "getitem (inputs op) 0 = Inr i0" and "tensor_ref m i0 = Inr inp"
    and "getitem (inputs op) 1 = Inr i1" and "tensor_ref m i1 = Inr w"
    and "getitem (outputs op) 0 = Inr o0" and "tensor_ref m o0 = Inr outp"
    and "w \<noteq> inp" and "w \<noteq> outp"
  shows "(\<forall>i2. getitem (inputs op) 2 = Inr i2 \<longrightarrow>
            requantize_fully_connected m op =
              (case change_activation_tensor_8to16 m inp of
                 Inl em \<Rightarrow> Inl em
               | Inr m1 \<Rightarrow>
                  (case change_activation_tensor_8to16 m1 outp of
                     Inl em \<Rightarrow> Inl em
                   | Inr m2 \<Rightarrow>
                       if i2 \<noteq> - 1
                       then (case tensor_ref m2 i2 of
                               Inl e \<Rightarrow> Inl (e, m2)
                             | Inr bias \<Rightarrow> set_bias_type_int64 m2 inp w bias)
                       else Inr m2)))
       \<and> (getitem (inputs op) 2 = Inr (- 1) \<longrightarrow>
            requantize_fully_connected m op =
              (case change_activation_tensor_8to16 m inp of
                 Inl em \<Rightarrow> Inl em
               | Inr m1 \<Rightarrow> change_activation_tensor_8to16 m1 outp)
            \<and> buffers (final_state (requantize_fully_connected m op)) = buffers m
            \<and> (\<forall>j. j \<noteq> inp \<and> j \<noteq> outp \<longrightarrow>
                  tensors (final_state (requantize_fully_connected m op)) ! j = tensors m ! j))
       \<and> ((\<forall>i2 bias. getitem (inputs op) 2 = Inr i2 \<and> i2 \<noteq> - 1 \<and> tensor_ref m i2 = Inr bias
               \<longrightarrow> bias \<noteq> w)
            \<longrightarrow> tensors (final_state (requantize_fully_connected m op)) ! w = tensors m ! w)
       \<and> (\<forall>kw. py_index (length (buffers m)) (buffer (tensors m ! w)) = Inr kw
               \<and> (\<forall>i2 bias. getitem (inputs op) 2 = Inr i2 \<and> i2 \<noteq> - 1 \<and> tensor_ref m i2 = Inr bias
                     \<longrightarrow> py_index (length (buffers m)) (buffer (tensors m ! bias)) \<noteq> Inr kw)
               \<longrightarrow> buffers (final_state (requantize_fully_connected m op)) ! kw = buffers m ! kw)"
proof -
  have inp: "inp < length (tensors m)" using assms(2) by (rule tensor_ref_less)
  have outp: "outp < length (tensors m)" using assms(6) by (rule tensor_ref_less)
  note eq = requantize_fully_connected_eq [OF assms(1-6)]
  note fr = retype_activations_frame [OF inp outp]
  have D: "requantize_fully_connected m op =
              (case change_activation_tensor_8to16 m inp of
                 Inl em \<Rightarrow> Inl em
               | Inr m1 \<Rightarrow>
                  (case change_activation_tensor_8to16 m1 outp of
                     Inl em \<Rightarrow> Inl em
                   | Inr m2 \<Rightarrow>
                       if i2 \<noteq> - 1
                       then (case tensor_ref m2 i2 of
                               Inl e \<Rightarrow> Inl (e, m2)
                             | Inr bias \<Rightarrow> set_bias_type_int64 m2 inp w bias)
                       else Inr m2))"
    if "getitem (inputs op) 2 = Inr i2" for i2
    unfolding eq that by (simp add: retype_activations_def split: sum.split)
  have A: "requantize_fully_connected m op =
              (case change_activation_tensor_8to16 m inp of
                 Inl em \<Rightarrow> Inl em
               | Inr m1 \<Rightarrow> change_activation_tensor_8to16 m1 outp)
            \<and> buffers (final_state (requantize_fully_connected m op)) = buffers m
            \<and> (\<forall>j. j \<noteq> inp \<and> j \<noteq> outp \<longrightarrow>
                  tensors (final_state (requantize_fully_connected m op)) ! j = tensors m ! j)"
    if absent: "getitem (inputs op) 2 = Inr (- 1)"
  proof -
    have "requantize_fully_connected m op = retype_activations m inp outp"
      unfolding eq absent by (simp split: sum.split)
    then show ?thesis using fr by (simp add: retype_activations_def)
  qed
  have B: "tensors (final_state (requantize_fully_connected m op)) ! w = tensors m ! w"
    if nb: "\<forall>i2 bias. getitem (inputs op) 2 = Inr i2 \<and> i2 \<noteq> - 1 \<and> tensor_ref m i2 = Inr bias
               \<longrightarrow> bias \<noteq> w"
  proof (cases "retype_activations m inp outp")
    case (Inl em)
    then show ?thesis using fr assms(7,8) unfolding eq by (simp add: final_state_def split: prod.split)
  next
    case (Inr m2)
    have m2: "tensors m2 ! w = tensors m ! w" "length (tensors m2) = length (tensors m)"
      using fr assms(7,8) Inr by (simp_all add: final_state_def)
    have ref: "tensor_ref m2 i = tensor_ref m i" for i by (simp add: tensor_ref_def m2(2))
    show ?thesis
    proof (cases "getitem (inputs op) 2")
      case (Inl e)
      then show ?thesis unfolding eq \<open>retype_activations m inp outp = Inr m2\<close>
        using m2 by (simp add: final_state_def)
    next
      case i2: (Inr i2)
      show ?thesis
      proof (cases "i2 \<noteq> - 1")
        case False
        then show ?thesis unfolding eq \<open>retype_activations m inp outp = Inr m2\<close> i2
          using m2 by (simp add: final_state_def)
      next
        case True
        show ?thesis
        proof (cases "tensor_ref m i2")
          case (Inl e)
          then show ?thesis unfolding eq \<open>retype_activations m inp outp = Inr m2\<close> i2
            using m2 True by (simp add: final_state_def ref)
        next
          case b: (Inr bias)
          have "bias \<noteq> w" using nb i2 True b by blast
          then have "tensors (final_state (set_bias_type_int64 m2 inp w bias)) ! w = tensors m2 ! w"
            by (intro set_bias_frame_tensors) simp
          then show ?thesis unfolding eq \<open>retype_activations m inp outp = Inr m2\<close> i2
            using m2 True b by (simp add: ref)
        qed
      qed
    qed
  qed
  have C: "buffers (final_state (requantize_fully_connected m op)) ! kw = buffers m ! kw"
    if nb: "\<forall>i2 bias. getitem (inputs op) 2 = Inr i2 \<and> i2 \<noteq> - 1 \<and> tensor_ref m i2 = Inr bias
                     \<longrightarrow> py_index (length (buffers m)) (buffer (tensors m ! bias)) \<noteq> Inr kw" for kw
  proof (cases "retype_activations m inp outp")
    case (Inl em)
    then show ?thesis using fr unfolding eq by (simp add: final_state_def split: prod.split)
  next
    case (Inr m2)
    have m2: "buffers m2 = buffers m" "length (tensors m2) = length (tensors m)"
      "\<And>j. buffer (tensors m2 ! j) = buffer (tensors m ! j)"
      using fr Inr by (simp_all add: final_state_def)
    have ref: "tensor_ref m2 i = tensor_ref m i" for i by (simp add: tensor_ref_def m2(2))
    show ?thesis
    proof (cases "getitem (inputs op) 2")
      case (Inl e)
      then show ?thesis unfolding eq \<open>retype_activations m inp outp = Inr m2\<close>
        using m2 by (simp add: final_state_def)
    next
      case i2: (Inr i2)
      show ?thesis
      proof (cases "i2 \<noteq> - 1")
        case False
        then show ?thesis unfolding eq \<open>retype_activations m inp outp = Inr m2\<close> i2
          using m2 by (simp add: final_state_def)
      next
        case True
        show ?thesis
        proof (cases "tensor_ref m i2")
          case (Inl e)
          then show ?thesis unfolding eq \<open>retype_activations m inp outp = Inr m2\<close> i2
            using m2 True by (simp add: final_state_def ref)
        next
          case b: (Inr bias)
          have "py_index (length (buffers m2)) (buffer (tensors m2 ! bias)) \<noteq> Inr kw"
            using nb i2 True b by (simp add: m2)
          then have "buffers (final_state (set_bias_type_int64 m2 inp w bias)) ! kw = buffers m2 ! kw"
            by (rule set_bias_frame_buffers)
          then show ?thesis unfolding eq \<open>retype_activations m inp outp = Inr m2\<close> i2
            using m2 True b by (simp add: ref)
        qed
      qed
    qed
  qed
  show ?thesis using A B C D by blast
qed

theorem fully_connected_frame_witness:
  "requantize_fully_connected (dense_example 0) dense_op =
     (case change_activation_tensor_8to16 (dense_example 0) 0 of
        Inl em \<Rightarrow> Inl em
      | Inr m1 \<Rightarrow> change_activation_tensor_8to16 m1 2)
   \<and> buffers (final_state (requantize_fully_connected (dense_example 0) dense_op))
       = buffers (dense_example 0)
   \<and> tensors (final_state (requantize_fully_connected (dense_example 0) dense_op)) ! 1
       = tensors (dense_example 0) ! 1"
proof -
  have g: "getitem (inputs dense_op) 0 = Inr 0" "getitem (inputs dense_op) 1 = Inr 1"
    "getitem (outputs dense_op) 0 = Inr 2" "getitem (inputs dense_op) 2 = Inr (- 1)"
    by (simp_all add: dense_op_def getitem_def py_index_def)
  have r: "tensor_ref (dense_example 0) 0 = Inr 0" "tensor_ref (dense_example 0) 1 = Inr 1"
    "tensor_ref (dense_example 0) 2 = Inr 2"
    by (simp_all add: tensor_ref_def dense_example_def py_index_def)
  have d: "(1::nat) \<noteq> 0" "(1::nat) \<noteq> 2" by simp_all
  note frame = fully_connected_frame [OF g(1) r(1) g(2) r(2) g(3) r(3) d]
  have absent: "\<forall>i2 bias. getitem (inputs dense_op) 2 = Inr i2 \<and> i2 \<noteq> - 1
      \<and> tensor_ref (dense_example 0) i2 = Inr bias \<longrightarrow> bias \<noteq> 1"
    using g(4) by simp
  from frame g(4) have A: "requantize_fully_connected (dense_example 0) dense_op =
     (case change_activation_tensor_8to16 (dense_example 0) 0 of
        Inl em \<Rightarrow> Inl em
      | Inr m1 \<Rightarrow> change_activation_tensor_8to16 m1 2)
   \<and> buffers (final_state (requantize_fully_connected (dense_example 0) dense_op))
       = buffers (dense_example 0)"
    by blast
  from frame absent have B: "tensors (final_state (requantize_fully_connected (dense_example 0) dense_op)) ! 1
       = tensors (dense_example 0) ! 1"
    by blast
  show ?thesis using A B by blast
qed


text \<open>
  C9 as the spec states it, raising no error whenever the bias slot holds \<open>-1\<close>, fails
  when the input is an int8 tensor quantized per channel: the RuntimeError of its
  retyping ends the call.
\<close>

theorem dense_absent_bias_raises:
  "getitem (inputs dense_op) 2 = Inr (- 1)
   \<and> requantize_fully_connected (dense_example 1) dense_op = Inl (RuntimeError, dense_example 1)"
  by (simp add: requantize_fully_connected_def dense_example_def dense_op_def getitem_def py_index_def
      tensor_ref_def change_activation_tensor_8to16_def lookup_code_int8
      change_quantization_settings_8to16_def)

end
